theory Spec2Isabelle
  imports Main
begin

section \<open>The cardano-launcher orchestrator (src/cardanoLauncher.ts)\<close>

text \<open>
  The Launcher is event-driven JavaScript: one thread, every callback runs to completion
  before the next one starts. The model is therefore a state record, one function per
  callback of the source (each function is one atomic block of the source), and a
  \<open>step\<close> function that dispatches an input of the environment (a call of the public
  interface, a settled promise of a collaborator, a timer tick, a socket event, a process
  signal) to the callback that the source registered for it. Everything the Launcher
  does to a collaborator (logger, service handle, event emitter, process, timer, socket)
  is appended to a history, in program order, and so is every input.

  The two events of \<open>walletBackend.events\<close> are emitted in two places only: in the callback
  of \<open>client.connect\<close> and in the continuation that \<open>stop\<close> attaches to \<open>Promise.all\<close>. Both
  run in a later turn of the event loop than the block that registered them, whatever a
  service does inside its own \<open>start\<close> or \<open>stop\<close>.
\<close>

subsection \<open>Collaborator types\<close>

text \<open>
  Modelled from the spec: the enum \<open>ServiceStatus\<close> is declared in service.ts, which is
  not among the sources. The spec gives it as the ordered enum
  not-started < starting < started < stopping < stopped, compared numerically.
\<close>

datatype ServiceStatus = NotStarted | Starting | Started | Stopping | Stopped

fun status_num :: "ServiceStatus \<Rightarrow> nat" where
  "status_num NotStarted = 0"
| "status_num Starting = 1"
| "status_num Started = 2"
| "status_num Stopping = 3"
| "status_num Stopped = 4"

text \<open>A rejection reason (a JavaScript \<open>Error\<close>), by its message.\<close>

type_synonym Error = string

text \<open>The names of process signals (\<open>NodeJS.Signals\<close> is a union of string literals).\<close>

type_synonym Signals = string

datatype service = Wallet | Node

text \<open>
  \<open>ExitStatus\<close> (lines 61-64) is a JavaScript object with the properties \<open>wallet\<close> and
  \<open>node\<close>. \<open>exitStatusMessage\<close> iterates over the object's properties with lodash's
  \<open>_.map\<close>, which visits them in the order in which the object holds them, so the object
  is an association list. The exit status of one service (\<open>ServiceExitStatus\<close>, declared
  in service.ts) is the type parameter \<open>'st\<close>.
\<close>

type_synonym 'st ExitStatus = "(string \<times> 'st) list"

subsection \<open>Exit status message (lines 69-71)\<close>

text \<open>\<open>Array.prototype.join\<close>: the elements with the separator between them.\<close>

fun join :: "string \<Rightarrow> string list \<Rightarrow> string" where
  "join sep [] = []"
| "join sep [x] = x"
| "join sep (x # y # ys) = x @ sep @ join sep (y # ys)"

text \<open>
  \<open>serviceExitStatusMessage\<close> is imported from service.ts; it is the parameter \<open>msg\<close>.
\<close>

definition exitStatusMessage :: "('st \<Rightarrow> string) \<Rightarrow> 'st ExitStatus \<Rightarrow> string" where
  "exitStatusMessage msg status = join [CHR 0x0A] (map (\<lambda>(key, v). msg v) status)"

subsection \<open>The history of a Launcher\<close>

datatype ('api, 'st) action =
    LoggerDebug string
  | LoggerDebugStatus string "'st ExitStatus"
  | LoggerInfo string
  | LoggerInfoWaiting string nat
  | ConsoleDebug string
  | ServiceStart service
  | ServiceStop service int
  | Emit_ready 'api
  | Emit_exit "'st ExitStatus"
  | On_ready nat
  | On_exit nat
  | ProcessOn Signals
  | ProcessOff Signals
  | SetInterval nat
  | ClearInterval nat
  | SocketConnect nat nat
  | SocketDestroy nat

datatype ('api, 'st) input =
    Call_start
  | Call_stop "int option"
  | WalletCommandSettled "Error + nat"
  | StartSettled service "Error + unit"
  | StatusChanged service ServiceStatus
  | TimerTick nat ServiceStatus ServiceStatus
  | SocketConnected nat 'api
  | SocketError nat string
  | StopSettled nat service "Error + 'st"
  | SignalReceived Signals
  | SignalStopSettled service "Error + 'st"

datatype ('api, 'st) entry = In "('api, 'st) input" | Out "('api, 'st) action"

subsection \<open>The state of a Launcher\<close>

text \<open>The promise that one call of \<open>start\<close> returned.\<close>

datatype ('api, 'st) promise_state = Pending | Fulfilled 'api | Rejected "'st ExitStatus"

text \<open>
  The closure of one call of \<open>waitForApi\<close> (lines 249-251): the interval timer and the
  variables \<open>addr\<close> and \<open>client\<close>.
\<close>

record poller =
  timer_active :: bool
  addr :: "nat option"
  client :: "nat option"

text \<open>A socket made by a poller; \<open>Connecting t\<close> belongs to the poller \<open>t\<close>.\<close>

datatype socket_state = Connecting nat | Connected | Failed | Destroyed

text \<open>
  One call of \<open>stop\<close> in flight: the two results that \<open>Promise.all\<close> waits for, the
  outcome of the promise that \<open>stop\<close> returned, and whether the caller attached
  \<open>.catch(passthroughErrorLogger)\<close> (the status observers of lines 189 and 196 do).
\<close>

record 'st stop_call =
  wallet_result :: "'st option"
  node_result :: "'st option"
  outcome :: "(Error + 'st ExitStatus) option"
  caught :: bool

text \<open>The value of the field \<open>cleanupSignalHandlers\<close>: \<open>noop\<close>, or the closure of line 319.\<close>

datatype cleanup_fn = Noop | RemoveHandlers

record ('api, 'st) Launcher =
  apiPort :: nat
  exited :: bool
  cleanupSignalHandlers :: cleanup_fn
  process_listeners :: "Signals list"
  ready_listeners :: "nat list"
  exit_listeners :: "nat list"
  start_promises :: "('api, 'st) promise_state list"
  pollers :: "poller list"
  sockets :: "socket_state list"
  stop_calls :: "'st stop_call list"
  history :: "('api, 'st) entry list"

text \<open>
  The fields of \<open>LaunchConfig\<close> (declared in cardanoWallet.ts) that the Launcher itself
  reads; \<open>installSignalHandlers\<close> is optional. The only kind of node that \<open>nodeExe\<close> knows is
  \<open>'shelley'\<close>.
\<close>

datatype node_kind = Shelley

record NodeConfig =
  kind :: node_kind
  configurationDir :: string

record LaunchConfig =
  stateDir :: string
  networkName :: string
  nodeConfig :: NodeConfig
  cfg_installSignalHandlers :: "bool option"

definition does :: "('api, 'st) action list \<Rightarrow> ('api, 'st) Launcher \<Rightarrow> ('api, 'st) Launcher" where
  "does acts s = s\<lparr>history := history s @ map Out acts\<rparr>"

subsection \<open>common.ts\<close>

text \<open>
  \<open>passthroughErrorLogger\<close> writes two lines to the console and returns; the text of the
  first line ends with a stack trace, which is left out here.
\<close>

definition passthroughErrorLogger :: "Error \<Rightarrow> ('api, 'st) Launcher \<Rightarrow> ('api, 'st) Launcher" where
  "passthroughErrorLogger err s =
     does [ConsoleDebug ''Caught an unhandled promise rejection.'', ConsoleDebug err] s"

definition ignorePromiseRejection :: "Error \<Rightarrow> ('api, 'st) Launcher \<Rightarrow> ('api, 'st) Launcher" where
  "ignorePromiseRejection err s = s"

text \<open>
  Promise continuations, with the state threaded through the callback. An outcome is
  \<open>Inl err\<close> (rejected) or \<open>Inr v\<close> (fulfilled). \<open>p.then(f)\<close> calls \<open>f\<close> only when \<open>p\<close> is
  fulfilled and passes a rejection on; \<open>p.catch(h)\<close> calls \<open>h\<close> only when \<open>p\<close> is rejected,
  and the promise it returns is then fulfilled with what \<open>h\<close> returns (nothing: \<open>None\<close>).
\<close>

definition promise_then :: "('a \<Rightarrow> 'z \<Rightarrow> (Error + 'b) \<times> 'z) \<Rightarrow> Error + 'a \<Rightarrow> 'z \<Rightarrow> (Error + 'b) \<times> 'z" where
  "promise_then f p s = (case p of Inl err \<Rightarrow> (Inl err, s) | Inr v \<Rightarrow> f v s)"

definition promise_catch :: "(Error \<Rightarrow> 'z \<Rightarrow> 'z) \<Rightarrow> Error + 'a \<Rightarrow> 'z \<Rightarrow> (Error + 'a option) \<times> 'z" where
  "promise_catch h p s = (case p of Inl err \<Rightarrow> (Inr None, h err s) | Inr v \<Rightarrow> (Inr (Some v), s))"

subsection \<open>The event emitter \<open>walletBackend.events\<close>\<close>

text \<open>
  The listeners that the Launcher itself subscribes are the \<open>resolve\<close> and \<open>reject\<close>
  functions of the promises that \<open>start\<close> made (lines 230-233); settling a promise that is
  no longer pending does nothing. The emitter is public, so the caller subscribes
  listeners of its own. One that returns changes nothing in the Launcher and is not part
  of the state. \<open>emit_ready\<close> and \<open>emit_exit\<close> are the emissions in which every listener returns;
  an emission of \<open>exit\<close> in which a listener of the caller throws is
  \<open>emit_exit_public\<close> below.
\<close>

definition settle :: "('api, 'st) promise_state \<Rightarrow> ('api, 'st) promise_state \<Rightarrow> ('api, 'st) promise_state" where
  "settle new old = (if old = Pending then new else old)"

definition settle_listeners ::
  "nat list \<Rightarrow> ('api, 'st) promise_state \<Rightarrow> ('api, 'st) promise_state list \<Rightarrow> ('api, 'st) promise_state list" where
  "settle_listeners ids new ps = fold (\<lambda>i qs. if i < length qs then qs[i := settle new (qs ! i)] else qs) ids ps"

definition emit_ready :: "'api \<Rightarrow> ('api, 'st) Launcher \<Rightarrow> ('api, 'st) Launcher" where
  "emit_ready api s =
     (does [Emit_ready api] s)\<lparr>start_promises := settle_listeners (ready_listeners s) (Fulfilled api) (start_promises s)\<rparr>"

definition emit_exit :: "'st ExitStatus \<Rightarrow> ('api, 'st) Launcher \<Rightarrow> ('api, 'st) Launcher" where
  "emit_exit status s =
     (does [Emit_exit status] s)\<lparr>start_promises := settle_listeners (exit_listeners s) (Rejected status) (start_promises s)\<rparr>"

subsection \<open>Signal handlers (lines 311-323)\<close>

definition signals :: "Signals list" where
  "signals = [''SIGINT'', ''SIGTERM'', ''SIGHUP'', ''SIGBREAK'']"

definition handler :: "Signals \<Rightarrow> ('api, 'st) Launcher \<Rightarrow> ('api, 'st) Launcher" where
  "handler signal s =
     does [LoggerInfo (''Received '' @ signal @ '' - stopping services...''),
           ServiceStop Wallet 0,
           ServiceStop Node 0] s"

definition process_on :: "Signals \<Rightarrow> ('api, 'st) Launcher \<Rightarrow> ('api, 'st) Launcher" where
  "process_on signal s = (does [ProcessOn signal] s)\<lparr>process_listeners := process_listeners s @ [signal]\<rparr>"

definition process_off :: "Signals \<Rightarrow> ('api, 'st) Launcher \<Rightarrow> ('api, 'st) Launcher" where
  "process_off signal s = (does [ProcessOff signal] s)\<lparr>process_listeners := remove1 signal (process_listeners s)\<rparr>"

definition installSignalHandlers :: "('api, 'st) Launcher \<Rightarrow> ('api, 'st) Launcher" where
  "installSignalHandlers s = (fold process_on signals s)\<lparr>cleanupSignalHandlers := RemoveHandlers\<rparr>"

definition call_cleanupSignalHandlers :: "('api, 'st) Launcher \<Rightarrow> ('api, 'st) Launcher" where
  "call_cleanupSignalHandlers s =
     (case cleanupSignalHandlers s of
        Noop \<Rightarrow> s
      | RemoveHandlers \<Rightarrow> (fold process_off signals s)\<lparr>cleanupSignalHandlers := Noop\<rparr>)"

text \<open>The process calls the handler when a signal arrives for which it is registered.\<close>

definition signal_received :: "Signals \<Rightarrow> ('api, 'st) Launcher \<Rightarrow> ('api, 'st) Launcher" where
  "signal_received signal s = (if signal \<in> set (process_listeners s) then handler signal s else s)"

text \<open>
  A promise of \<open>stop(0)\<close> that the handler made settles: the source attached
  \<open>.catch(passthroughErrorLogger)\<close> to it (lines 315-316).
\<close>

definition signal_stop_settled :: "Error + 'st \<Rightarrow> ('api, 'st) Launcher \<Rightarrow> (Error + 'st option) \<times> ('api, 'st) Launcher" where
  "signal_stop_settled r s = promise_catch passthroughErrorLogger r s"

subsection \<open>stop (lines 289-306)\<close>

text \<open>The call itself: the default of the parameter, the log line, and the two stop calls.\<close>

definition stop_call_init :: "bool \<Rightarrow> 'st stop_call" where
  "stop_call_init c = \<lparr>wallet_result = None, node_result = None, outcome = None, caught = c\<rparr>"

definition stop :: "bool \<Rightarrow> int option \<Rightarrow> ('api, 'st) Launcher \<Rightarrow> ('api, 'st) Launcher" where
  "stop c timeoutArg s =
     (let timeoutSeconds = (case timeoutArg of None \<Rightarrow> 60 | Some t \<Rightarrow> t)
      in (does [LoggerDebug ''Launcher.stop: stopping wallet and node'',
                ServiceStop Wallet timeoutSeconds,
                ServiceStop Node timeoutSeconds] s)
         \<lparr>stop_calls := stop_calls s @ [stop_call_init c]\<rparr>)"

text \<open>The callback of \<open>then\<close> (lines 296-305); it returns the status.\<close>

definition mk_status :: "'st \<Rightarrow> 'st \<Rightarrow> 'st ExitStatus" where
  "mk_status wallet node = [(''wallet'', wallet), (''node'', node)]"

definition stop_then :: "'st \<Rightarrow> 'st \<Rightarrow> ('api, 'st) Launcher \<Rightarrow> 'st ExitStatus \<times> ('api, 'st) Launcher" where
  "stop_then wallet node s =
     (let status = mk_status wallet node;
          s1 = does [LoggerDebugStatus ''Launcher.stop: both services are stopped.'' status] s;
          s2 = (if \<not> exited s1 then (emit_exit status s1)\<lparr>exited := True\<rparr> else s1);
          s3 = call_cleanupSignalHandlers s2
      in (status, s3))"

text \<open>
  \<open>Promise.all\<close> over the two stop promises of the call \<open>k\<close>: the first rejection
  rejects the promise that \<open>stop\<close> returned, and the callback runs once both are fulfilled.
\<close>

definition set_result :: "service \<Rightarrow> 'st \<Rightarrow> 'st stop_call \<Rightarrow> 'st stop_call" where
  "set_result svc v c = (case svc of Wallet \<Rightarrow> c\<lparr>wallet_result := Some v\<rparr> | Node \<Rightarrow> c\<lparr>node_result := Some v\<rparr>)"

definition get_result :: "service \<Rightarrow> 'st stop_call \<Rightarrow> 'st option" where
  "get_result svc c = (case svc of Wallet \<Rightarrow> wallet_result c | Node \<Rightarrow> node_result c)"

definition stop_rejected :: "nat \<Rightarrow> Error \<Rightarrow> ('api, 'st) Launcher \<Rightarrow> ('api, 'st) Launcher" where
  "stop_rejected k err s =
     (let c = stop_calls s ! k;
          s1 = s\<lparr>stop_calls := (stop_calls s)[k := c\<lparr>outcome := Some (Inl err)\<rparr>]\<rparr>
      in if caught c then snd (promise_catch passthroughErrorLogger (Inl err :: Error + 'st ExitStatus) s1) else s1)"

definition stop_fulfilled :: "nat \<Rightarrow> service \<Rightarrow> 'st \<Rightarrow> ('api, 'st) Launcher \<Rightarrow> ('api, 'st) Launcher" where
  "stop_fulfilled k svc v s =
     (let c = set_result svc v (stop_calls s ! k);
          s1 = s\<lparr>stop_calls := (stop_calls s)[k := c]\<rparr>
      in case (wallet_result c, node_result c) of
           (Some w, Some n) \<Rightarrow>
             (let (status, s2) = stop_then w n s1
              in s2\<lparr>stop_calls := (stop_calls s2)[k := c\<lparr>outcome := Some (Inr status)\<rparr>]\<rparr>)
         | _ \<Rightarrow> s1)"

definition stop_settled :: "nat \<Rightarrow> service \<Rightarrow> Error + 'st \<Rightarrow> ('api, 'st) Launcher \<Rightarrow> ('api, 'st) Launcher" where
  "stop_settled k svc r s =
     (if k < length (stop_calls s) \<and> outcome (stop_calls s ! k) = None \<and> get_result svc (stop_calls s ! k) = None
      then (case r of Inl err \<Rightarrow> stop_rejected k err s | Inr v \<Rightarrow> stop_fulfilled k svc v s)
      else s)"

subsection \<open>The readiness poller (lines 246-276)\<close>

text \<open>The stop predicate that \<open>start\<close> passes (lines 218-220).\<close>

definition stopWaiting :: "ServiceStatus \<Rightarrow> ServiceStatus \<Rightarrow> bool" where
  "stopWaiting nodeStatus walletStatus =
     (status_num nodeStatus > status_num Started \<or> status_num walletStatus > status_num Started)"

definition waitForApi :: "('api, 'st) Launcher \<Rightarrow> ('api, 'st) Launcher" where
  "waitForApi s =
     (does [LoggerDebug ''waitForApi'', SetInterval (length (pollers s))] s)
       \<lparr>pollers := pollers s @ [\<lparr>timer_active = True, addr = None, client = None\<rparr>]\<rparr>"

definition clearInterval :: "nat \<Rightarrow> ('api, 'st) Launcher \<Rightarrow> ('api, 'st) Launcher" where
  "clearInterval t s =
     (does [ClearInterval t] s)\<lparr>pollers := (pollers s)[t := (pollers s ! t)\<lparr>timer_active := False\<rparr>]\<rparr>"

text \<open>
  Lines 255-260: \<open>addr\<close> is set on the first tick that finds the port known, with one log
  line; \<open>LoggerInfoWaiting host port\<close> stands for the line
  \<open>Waiting for tcp port host:port to accept connections...\<close>.
\<close>

definition set_addr :: "nat \<Rightarrow> ('api, 'st) Launcher \<Rightarrow> ('api, 'st) Launcher" where
  "set_addr t s =
     (case addr (pollers s ! t) of
        None \<Rightarrow>
          (does [LoggerInfoWaiting ''127.0.0.1'' (apiPort s)] s)
            \<lparr>pollers := (pollers s)[t := (pollers s ! t)\<lparr>addr := Some (apiPort s)\<rparr>]\<rparr>
      | Some a \<Rightarrow> s)"

definition destroy_client :: "nat \<Rightarrow> ('api, 'st) Launcher \<Rightarrow> ('api, 'st) Launcher" where
  "destroy_client t s =
     (case client (pollers s ! t) of
        None \<Rightarrow> s
      | Some c \<Rightarrow> (does [SocketDestroy c] s)\<lparr>sockets := (sockets s)[c := Destroyed]\<rparr>)"

definition connect_client :: "nat \<Rightarrow> ('api, 'st) Launcher \<Rightarrow> ('api, 'st) Launcher" where
  "connect_client t s =
     (let c = length (sockets s)
      in (does [SocketConnect c (case addr (pollers s ! t) of None \<Rightarrow> 0 | Some a \<Rightarrow> a)] s)
           \<lparr>sockets := sockets s @ [Connecting t],
            pollers := (pollers s)[t := (pollers s ! t)\<lparr>client := Some c\<rparr>]\<rparr>)"

text \<open>The callback of \<open>setInterval\<close>; \<open>stop()\<close> reads the status of both services.\<close>

definition timer_tick :: "nat \<Rightarrow> ServiceStatus \<Rightarrow> ServiceStatus \<Rightarrow> ('api, 'st) Launcher \<Rightarrow> ('api, 'st) Launcher" where
  "timer_tick t nodeStatus walletStatus s =
     (if t < length (pollers s) \<and> timer_active (pollers s ! t)
      then (if stopWaiting nodeStatus walletStatus then clearInterval t s
            else if apiPort s \<noteq> 0 then connect_client t (destroy_client t (set_addr t s))
            else s)
      else s)"

text \<open>
  The callback of \<open>client.connect\<close> (lines 266-270); \<open>ready\<close> is the callback that \<open>start\<close>
  passes (lines 226-228), and \<open>api\<close> is what \<open>walletBackend.getApi()\<close> returns then.
\<close>

definition socket_connected :: "nat \<Rightarrow> 'api \<Rightarrow> ('api, 'st) Launcher \<Rightarrow> ('api, 'st) Launcher" where
  "socket_connected c api s =
     (if c < length (sockets s)
      then (case sockets s ! c of
              Connecting t \<Rightarrow>
                emit_ready api
                  (clearInterval t
                    (does [LoggerInfo ''... port is ready.''] (s\<lparr>sockets := (sockets s)[c := Connected]\<rparr>)))
            | _ \<Rightarrow> s)
      else s)"

definition socket_error :: "nat \<Rightarrow> string \<Rightarrow> ('api, 'st) Launcher \<Rightarrow> ('api, 'st) Launcher" where
  "socket_error c err s =
     (if c < length (sockets s)
      then (case sockets s ! c of
              Connecting t \<Rightarrow>
                does [LoggerDebug (''waitForApi: not ready yet: '' @ err)] (s\<lparr>sockets := (sockets s)[c := Failed]\<rparr>)
            | _ \<Rightarrow> s)
      else s)"

subsection \<open>start (lines 217-235)\<close>

definition new_promise :: "('api, 'st) Launcher \<Rightarrow> ('api, 'st) Launcher" where
  "new_promise s = s\<lparr>start_promises := start_promises s @ [Pending]\<rparr>"

definition on_ready :: "nat \<Rightarrow> ('api, 'st) Launcher \<Rightarrow> ('api, 'st) Launcher" where
  "on_ready p s = (does [On_ready p] s)\<lparr>ready_listeners := ready_listeners s @ [p]\<rparr>"

definition on_exit :: "nat \<Rightarrow> ('api, 'st) Launcher \<Rightarrow> ('api, 'st) Launcher" where
  "on_exit p s = (does [On_exit p] s)\<lparr>exit_listeners := exit_listeners s @ [p]\<rparr>"

text \<open>The executor of the promise, statement by statement.\<close>

definition start :: "('api, 'st) Launcher \<Rightarrow> ('api, 'st) Launcher" where
  "start s =
     (let p = length (start_promises s);
          s1 = new_promise s;
          s2 = does [ServiceStart Node] s1;
          s3 = does [ServiceStart Wallet] s2;
          s4 = waitForApi s3;
          s5 = on_ready p s4;
          s6 = on_exit p s5
      in s6)"

subsection \<open>The start commands (lines 325-358)\<close>

text \<open>
  \<open>makeServiceCommands\<close> builds the two promises that the constructor hands to
  \<open>setupService\<close>. The functions it calls are imported (\<open>mkdirp\<close>,
  \<open>cardanoNode.startCardanoNode\<close>, \<open>cardanoWalletStartService\<close>): they are the fields of the
  environment, each giving the outcome of the promise it returns. The calls made are
  appended to a log.
\<close>

datatype command_call =
    Command_info string
  | Call_mkdirp string
  | Call_nodeExe string
  | Call_walletExe string

record ('n, 'w) command_env =
  mkdirp :: "string \<Rightarrow> Error + unit"
  startCardanoNode :: "string \<Rightarrow> NodeConfig \<Rightarrow> string \<Rightarrow> Error + 'n"
  cardanoWalletStartService :: "string \<Rightarrow> LaunchConfig \<Rightarrow> Error + 'w"

definition nodeExe :: "('n, 'w) command_env \<Rightarrow> string \<Rightarrow> LaunchConfig \<Rightarrow> command_call list \<Rightarrow> (Error + 'n) \<times> command_call list" where
  "nodeExe env baseDir config calls =
     (case kind (nodeConfig config) of
        Shelley \<Rightarrow> startCardanoNode env baseDir (nodeConfig config) (networkName config),
      calls @ [Call_nodeExe baseDir])"

definition walletExe :: "('n, 'w) command_env \<Rightarrow> string \<Rightarrow> LaunchConfig \<Rightarrow> command_call list \<Rightarrow> (Error + 'w) \<times> command_call list" where
  "walletExe env baseDir config calls = (cardanoWalletStartService env baseDir config, calls @ [Call_walletExe baseDir])"

record ('n, 'w) service_commands =
  wallet :: "Error + 'w"
  node :: "Error + 'n"

definition creating_message :: "LaunchConfig \<Rightarrow> string" where
  "creating_message config =
     ''Creating state directory '' @ stateDir config @ '' (if it doesn'' @ [CHR 0x27] @ ''t already exist)''"

definition makeServiceCommands ::
  "('n, 'w) command_env \<Rightarrow> LaunchConfig \<Rightarrow> ('n, 'w) service_commands \<times> command_call list" where
  "makeServiceCommands env config =
     (let calls0 = [Command_info (creating_message config), Call_mkdirp (stateDir config)];
          (node_p, calls1) =
             promise_then (\<lambda>u. nodeExe env (stateDir config) config) (mkdirp env (stateDir config)) calls0;
          (wallet_p, calls2) =
             promise_then (\<lambda>n. walletExe env (stateDir config) config) node_p calls1
      in (\<lparr>wallet = wallet_p, node = node_p\<rparr>, calls2))"

subsection \<open>The constructor (lines 152-201)\<close>

text \<open>The observers of \<open>statusChanged\<close> (lines 186-198).\<close>

definition status_changed :: "service \<Rightarrow> ServiceStatus \<Rightarrow> ('api, 'st) Launcher \<Rightarrow> ('api, 'st) Launcher" where
  "status_changed svc status s =
     (if status = Stopped
      then stop True None
             (does [LoggerDebug (case svc of Wallet \<Rightarrow> ''wallet exited'' | Node \<Rightarrow> ''node exited'')] s)
      else s)"

text \<open>The continuation of \<open>start.wallet\<close> (lines 180-184).\<close>

definition wallet_command_settled :: "Error + nat \<Rightarrow> ('api, 'st) Launcher \<Rightarrow> (Error + unit option) \<times> ('api, 'st) Launcher" where
  "wallet_command_settled r s =
     (let (r1, s1) = promise_then (\<lambda>port s0. (Inr (), s0\<lparr>apiPort := port\<rparr>)) r s
      in promise_catch passthroughErrorLogger r1 s1)"

definition fresh :: "('api, 'st) Launcher" where
  "fresh = \<lparr>apiPort = 0, exited = False, cleanupSignalHandlers = Noop, process_listeners = [],
            ready_listeners = [], exit_listeners = [], start_promises = [], pollers = [],
            sockets = [], stop_calls = [], history = []\<rparr>"

definition construct :: "LaunchConfig \<Rightarrow> ('api, 'st) Launcher" where
  "construct config =
     (let installSignalHandlers_flag =
            (case cfg_installSignalHandlers config of None \<Rightarrow> True | Some b \<Rightarrow> b);
          s1 = does [LoggerDebug ''Launcher init'',
                     LoggerInfo (creating_message config)]
                 fresh
      in if installSignalHandlers_flag then installSignalHandlers s1 else s1)"

subsection \<open>Executions\<close>

fun dispatch :: "('api, 'st) input \<Rightarrow> ('api, 'st) Launcher \<Rightarrow> ('api, 'st) Launcher" where
  "dispatch Call_start s = start s"
| "dispatch (Call_stop t) s = stop False t s"
| "dispatch (WalletCommandSettled r) s = snd (wallet_command_settled r s)"
| "dispatch (StartSettled svc r) s = snd (promise_catch ignorePromiseRejection r s)"
| "dispatch (StatusChanged svc status) s = status_changed svc status s"
| "dispatch (TimerTick t nodeStatus walletStatus) s = timer_tick t nodeStatus walletStatus s"
| "dispatch (SocketConnected c api) s = socket_connected c api s"
| "dispatch (SocketError c err) s = socket_error c err s"
| "dispatch (StopSettled k svc r) s = stop_settled k svc r s"
| "dispatch (SignalReceived signal) s = signal_received signal s"
| "dispatch (SignalStopSettled svc r) s = snd (signal_stop_settled r s)"

definition step :: "('api, 'st) Launcher \<Rightarrow> ('api, 'st) input \<Rightarrow> ('api, 'st) Launcher" where
  "step s i = dispatch i (s\<lparr>history := history s @ [In i]\<rparr>)"

definition run :: "('api, 'st) Launcher \<Rightarrow> ('api, 'st) input list \<Rightarrow> ('api, 'st) Launcher" where
  "run s ins = foldl step s ins"

subsection \<open>Listeners of the caller on \<open>walletBackend.events\<close>\<close>

text \<open>
  \<open>emit\<close> calls the listeners of an event one after the other, in the order of their
  subscription, inside the block that emits. When a listener throws, the listeners
  after it are not called and the exception leaves \<open>emit\<close>. In the callback of \<open>stop\<close> (lines
  296-305) the statements after the emission are then skipped: \<open>exited\<close> is not set, the
  cleanup is not called, and the promise that \<open>stop\<close> returned is rejected with the
  exception.

  The state is extended by the listeners of \<open>exit\<close> that the caller subscribed and that
  throw: for each one, the number of listeners of \<open>start\<close> subscribed before it, and what it
  throws. The first of them ends every emission.
\<close>

record ('api, 'st) Observed =
  launcher :: "('api, 'st) Launcher"
  exit_throwers :: "(nat \<times> Error) list"

text \<open>
  An emission of \<open>exit\<close>: the exception that left it, if any. With a throwing listener only
  the listeners of \<open>start\<close> before it are called.
\<close>

definition emit_exit_public ::
  "(nat \<times> Error) list \<Rightarrow> 'st ExitStatus \<Rightarrow> ('api, 'st) Launcher \<Rightarrow> Error option \<times> ('api, 'st) Launcher" where
  "emit_exit_public throwers status s =
     (case throwers of
        [] \<Rightarrow> (None, emit_exit status s)
      | (j, err) # later \<Rightarrow>
          (Some err,
           (does [Emit_exit status] s)
             \<lparr>start_promises := settle_listeners (take j (exit_listeners s)) (Rejected status) (start_promises s)\<rparr>))"

text \<open>The callback of \<open>then\<close> (lines 296-305): the exception that left it, or the status.\<close>

definition stop_then_public ::
  "(nat \<times> Error) list \<Rightarrow> 'st \<Rightarrow> 'st \<Rightarrow> ('api, 'st) Launcher \<Rightarrow> (Error + 'st ExitStatus) \<times> ('api, 'st) Launcher" where
  "stop_then_public throwers w n s =
     (let status = mk_status w n;
          s1 = does [LoggerDebugStatus ''Launcher.stop: both services are stopped.'' status] s
      in if \<not> exited s1
         then (case emit_exit_public throwers status s1 of
                 (Some err, s2) \<Rightarrow> (Inl err, s2)
               | (None, s2) \<Rightarrow> (Inr status, call_cleanupSignalHandlers (s2\<lparr>exited := True\<rparr>)))
         else (Inr status, call_cleanupSignalHandlers s1))"

text \<open>
  \<open>Promise.all\<close> as in \<open>stop_fulfilled\<close>; the outcome of the promise that \<open>stop\<close> returned is
  what the callback returned or threw, and a rejection goes to \<open>passthroughErrorLogger\<close>
  where the caller attached it.
\<close>

definition stop_fulfilled_public ::
  "(nat \<times> Error) list \<Rightarrow> nat \<Rightarrow> service \<Rightarrow> 'st \<Rightarrow> ('api, 'st) Launcher \<Rightarrow> ('api, 'st) Launcher" where
  "stop_fulfilled_public throwers k svc v s =
     (let c = set_result svc v (stop_calls s ! k);
          s1 = s\<lparr>stop_calls := (stop_calls s)[k := c]\<rparr>
      in case (wallet_result c, node_result c) of
           (Some w, Some n) \<Rightarrow>
             (let (r, s2) = stop_then_public throwers w n s1;
                  s3 = s2\<lparr>stop_calls := (stop_calls s2)[k := c\<lparr>outcome := Some r\<rparr>]\<rparr>
              in case r of
                   Inl err \<Rightarrow>
                     if caught c
                     then snd (promise_catch passthroughErrorLogger (Inl err :: Error + 'st ExitStatus) s3)
                     else s3
                 | Inr status \<Rightarrow> s3)
         | _ \<Rightarrow> s1)"

definition stop_settled_public ::
  "(nat \<times> Error) list \<Rightarrow> nat \<Rightarrow> service \<Rightarrow> Error + 'st \<Rightarrow> ('api, 'st) Launcher \<Rightarrow> ('api, 'st) Launcher" where
  "stop_settled_public throwers k svc r s =
     (if k < length (stop_calls s) \<and> outcome (stop_calls s ! k) = None \<and> get_result svc (stop_calls s ! k) = None
      then (case r of Inl err \<Rightarrow> stop_rejected k err s | Inr v \<Rightarrow> stop_fulfilled_public throwers k svc v s)
      else s)"

text \<open>
  The inputs of an execution: those of the Launcher, and the caller's subscription of a
  listener of \<open>exit\<close> that throws the given error.
\<close>

datatype ('api, 'st) caller_input =
    Launcher_input "('api, 'st) input"
  | Subscribe_exit_thrower Error

fun dispatch_public :: "('api, 'st) caller_input \<Rightarrow> ('api, 'st) Observed \<Rightarrow> ('api, 'st) Observed" where
  "dispatch_public (Subscribe_exit_thrower err) ob =
     ob\<lparr>exit_throwers := exit_throwers ob @ [(length (exit_listeners (launcher ob)), err)]\<rparr>"
| "dispatch_public (Launcher_input (StopSettled k svc r)) ob =
     ob\<lparr>launcher :=
          stop_settled_public (exit_throwers ob) k svc r
            ((launcher ob)\<lparr>history := history (launcher ob) @ [In (StopSettled k svc r)]\<rparr>)\<rparr>"
| "dispatch_public (Launcher_input i) ob = ob\<lparr>launcher := step (launcher ob) i\<rparr>"

definition run_public :: "('api, 'st) Observed \<Rightarrow> ('api, 'st) caller_input list \<Rightarrow> ('api, 'st) Observed" where
  "run_public ob ins = foldl (\<lambda>x i. dispatch_public i x) ob ins"

definition construct_public :: "LaunchConfig \<Rightarrow> ('api, 'st) Observed" where
  "construct_public config = \<lparr>launcher = construct config, exit_throwers = []\<rparr>"

subsection \<open>Predicates on histories and example inputs\<close>

fun is_Emit_exit :: "('api, 'st) entry \<Rightarrow> bool" where
  "is_Emit_exit (Out (Emit_exit status)) = True"
| "is_Emit_exit e = False"

text \<open>How often the \<open>exit\<close> event has been emitted so far.\<close>

definition exit_emissions :: "('api, 'st) Launcher \<Rightarrow> nat" where
  "exit_emissions s = length (filter is_Emit_exit (history s))"

definition exit_inv :: "('api, 'st) Launcher \<Rightarrow> bool" where
  "exit_inv s = (exit_emissions s = (if exited s then 1 else 0))"

definition config0 :: LaunchConfig where
  "config0 = \<lparr>stateDir = ''/tmp/state-launcher'', networkName = ''mainnet'',
               nodeConfig = \<lparr>kind = Shelley, configurationDir = ''/home/user/cardano-node/configuration/defaults/mainnet''\<rparr>,
               cfg_installSignalHandlers = None\<rparr>"

text \<open>
  The caller subscribes a listener of \<open>exit\<close> that throws. The node exits by itself, and
  both stop promises of the resulting \<open>stop\<close> are fulfilled; then the caller calls \<open>stop(5)\<close>,
  and both stop promises are fulfilled again.
\<close>

definition throwing_listener_inputs :: "(nat, string) caller_input list" where
  "throwing_listener_inputs =
     [Subscribe_exit_thrower ''listener failed'',
      Launcher_input (StatusChanged Node Stopped),
      Launcher_input (StopSettled 0 Wallet (Inr ''wallet: signal SIGKILL'')),
      Launcher_input (StopSettled 0 Node (Inr ''node: status 1'')),
      Launcher_input (Call_stop (Some 5)),
      Launcher_input (StopSettled 1 Wallet (Inr ''wallet: signal SIGKILL'')),
      Launcher_input (StopSettled 1 Node (Inr ''node: status 1''))]"

text \<open>The same listener, and one call of \<open>stop(5)\<close> whose stop promises are fulfilled.\<close>

definition stop_with_throwing_listener_inputs :: "(nat, string) caller_input list" where
  "stop_with_throwing_listener_inputs =
     [Subscribe_exit_thrower ''listener failed'',
      Launcher_input (Call_stop (Some 5)),
      Launcher_input (StopSettled 0 Wallet (Inr ''wallet: status 0'')),
      Launcher_input (StopSettled 0 Node (Inr ''node: status 0''))]"

text \<open>
  Two calls of \<open>stop\<close> in flight: \<open>stop(5)\<close> by the caller, and the one that the observer of
  the wallet's status makes.
\<close>

definition two_stops_inputs :: "(nat, string) input list" where
  "two_stops_inputs = [Call_stop (Some 5), StatusChanged Wallet Stopped]"

definition two_stops :: "(nat, string) Launcher" where
  "two_stops = run (construct config0) two_stops_inputs"

text \<open>Emissions of either event of \<open>walletBackend.events\<close>.\<close>

fun is_emit :: "('api, 'st) entry \<Rightarrow> bool" where
  "is_emit (Out (Emit_ready api)) = True"
| "is_emit (Out (Emit_exit status)) = True"
| "is_emit e = False"

definition emissions :: "('api, 'st) Launcher \<Rightarrow> nat" where
  "emissions s = length (filter is_emit (history s))"

text \<open>
  The promise \<open>p\<close> listens to both events and is settled exactly if an event has been
  emitted since the history held \<open>c0\<close> emissions.
\<close>

definition tracks :: "nat \<Rightarrow> nat \<Rightarrow> ('api, 'st) Launcher \<Rightarrow> bool" where
  "tracks p c0 s =
     (p < length (start_promises s) \<and> p \<in> set (ready_listeners s) \<and> p \<in> set (exit_listeners s) \<and>
      c0 \<le> emissions s \<and> ((start_promises s ! p \<noteq> Pending) = (c0 < emissions s)))"

definition same_promises :: "('api, 'st) Launcher \<Rightarrow> ('api, 'st) Launcher \<Rightarrow> bool" where
  "same_promises s' s =
     (start_promises s' = start_promises s \<and> ready_listeners s' = ready_listeners s \<and>
      exit_listeners s' = exit_listeners s \<and> filter is_emit (history s') = filter is_emit (history s))"

text \<open>Entries of a history: the calls and settlements that the ordering claims speak of.\<close>

fun is_wallet_start :: "('api, 'st) entry \<Rightarrow> bool" where
  "is_wallet_start (Out (ServiceStart Wallet)) = True"
| "is_wallet_start e = False"

fun is_node_start_settled :: "('api, 'st) entry \<Rightarrow> bool" where
  "is_node_start_settled (In (StartSettled Node r)) = True"
| "is_node_start_settled e = False"

text \<open>
  The promise of \<open>nodeService.start()\<close> is seen to settle before the first call of
  \<open>walletService.start()\<close>.
\<close>

definition node_start_settled_first :: "('api, 'st) entry list \<Rightarrow> bool" where
  "node_start_settled_first h = list_ex is_node_start_settled (takeWhile (\<lambda>e. \<not> is_wallet_start e) h)"



definition start_only :: "(nat, string) input list" where
  "start_only = [Call_start]"


text \<open>
  The wallet's port (8090) is known, \<open>start\<close> is called, the first tick begins a connection
  attempt, the second tick finds the node stopping, and then the attempt of the first
  tick succeeds. The value of \<open>getApi()\<close> is written as the port.
\<close>

definition late_connect_inputs :: "(nat, string) input list" where
  "late_connect_inputs =
     [WalletCommandSettled (Inr 8090), Call_start,
      TimerTick 0 Started Started,
      TimerTick 0 Stopping Started,
      SocketConnected 0 8090]"

section \<open>Evaluation\<close>

text \<open>The defining equations of the callbacks, for evaluating an execution on concrete inputs.\<close>

lemmas launcher_defs =
  run_def step_def construct_def fresh_def installSignalHandlers_def process_on_def process_off_def
  signals_def does_def start_def new_promise_def waitForApi_def on_ready_def on_exit_def
  status_changed_def stop_def stop_call_init_def stop_settled_def stop_fulfilled_def stop_rejected_def
  stop_then_def mk_status_def set_result_def get_result_def emit_exit_def emit_ready_def
  settle_listeners_def settle_def call_cleanupSignalHandlers_def passthroughErrorLogger_def
  promise_catch_def promise_then_def ignorePromiseRejection_def timer_tick_def stopWaiting_def
  clearInterval_def set_addr_def destroy_client_def connect_client_def socket_connected_def
  socket_error_def signal_received_def handler_def signal_stop_settled_def wallet_command_settled_def
  creating_message_def Let_def

lemmas public_defs =
  run_public_def construct_public_def stop_settled_public_def stop_fulfilled_public_def
  stop_then_public_def emit_exit_public_def

section \<open>The exit event and the flag \<open>exited\<close>\<close>

text \<open>
  Only the callback of \<open>stop\<close> writes \<open>exited\<close> or emits \<open>exit\<close>; every other callback leaves
  both alone. While every listener returns, the number of emissions is 1 if \<open>exited\<close> is
  set and 0 otherwise.
\<close>

lemma exit_frame:
  "exited s' = exited s \<Longrightarrow> filter is_Emit_exit (history s') = filter is_Emit_exit (history s) \<Longrightarrow>
   exit_inv s' = exit_inv s \<and> exit_emissions s' = exit_emissions s"
  by (simp add: exit_inv_def exit_emissions_def)

lemma process_on_exit_frame:
  "exited (fold process_on sigs s) = exited s \<and>
   filter is_Emit_exit (history (fold process_on sigs s)) = filter is_Emit_exit (history s)"
  by (induction sigs arbitrary: s) (simp_all add: process_on_def does_def)

lemma process_off_exit_frame:
  "exited (fold process_off sigs s) = exited s \<and>
   filter is_Emit_exit (history (fold process_off sigs s)) = filter is_Emit_exit (history s)"
  by (induction sigs arbitrary: s) (simp_all add: process_off_def does_def)

lemma cleanup_exit_frame:
  "exited (call_cleanupSignalHandlers s) = exited s \<and>
   filter is_Emit_exit (history (call_cleanupSignalHandlers s)) = filter is_Emit_exit (history s)"
  by (simp add: call_cleanupSignalHandlers_def process_off_exit_frame split: cleanup_fn.splits)

lemma start_exit_frame:
  "exited (start s) = exited s \<and> filter is_Emit_exit (history (start s)) = filter is_Emit_exit (history s)"
  by (simp add: start_def Let_def new_promise_def waitForApi_def on_ready_def on_exit_def does_def)

lemma stop_exit_frame:
  "exited (stop c t s) = exited s \<and> filter is_Emit_exit (history (stop c t s)) = filter is_Emit_exit (history s)"
  by (simp add: stop_def Let_def does_def)

lemma passthroughErrorLogger_exit_frame:
  "exited (passthroughErrorLogger err s) = exited s \<and>
   filter is_Emit_exit (history (passthroughErrorLogger err s)) = filter is_Emit_exit (history s)"
  by (simp add: passthroughErrorLogger_def does_def)

lemma wallet_command_settled_exit_frame:
  "exited (snd (wallet_command_settled r s)) = exited s \<and>
   filter is_Emit_exit (history (snd (wallet_command_settled r s))) = filter is_Emit_exit (history s)"
  by (cases r)
     (simp_all add: wallet_command_settled_def promise_then_def promise_catch_def
        passthroughErrorLogger_exit_frame)

lemma status_changed_exit_frame:
  "exited (status_changed svc status s) = exited s \<and>
   filter is_Emit_exit (history (status_changed svc status s)) = filter is_Emit_exit (history s)"
  by (simp add: status_changed_def stop_exit_frame does_def)

lemma timer_tick_exit_frame:
  "exited (timer_tick t ns ws s) = exited s \<and>
   filter is_Emit_exit (history (timer_tick t ns ws s)) = filter is_Emit_exit (history s)"
  by (simp add: timer_tick_def clearInterval_def connect_client_def destroy_client_def set_addr_def
        Let_def does_def split: option.splits)

lemma socket_connected_exit_frame:
  "exited (socket_connected c api s) = exited s \<and>
   filter is_Emit_exit (history (socket_connected c api s)) = filter is_Emit_exit (history s)"
  by (simp add: socket_connected_def clearInterval_def emit_ready_def does_def split: socket_state.splits)

lemma socket_error_exit_frame:
  "exited (socket_error c err s) = exited s \<and>
   filter is_Emit_exit (history (socket_error c err s)) = filter is_Emit_exit (history s)"
  by (simp add: socket_error_def does_def split: socket_state.splits)

lemma signal_received_exit_frame:
  "exited (signal_received signal s) = exited s \<and>
   filter is_Emit_exit (history (signal_received signal s)) = filter is_Emit_exit (history s)"
  by (simp add: signal_received_def handler_def does_def)

lemma signal_stop_settled_exit_frame:
  "exited (snd (signal_stop_settled r s)) = exited s \<and>
   filter is_Emit_exit (history (snd (signal_stop_settled r s))) = filter is_Emit_exit (history s)"
  by (cases r) (simp_all add: signal_stop_settled_def promise_catch_def passthroughErrorLogger_exit_frame)

text \<open>The callback of \<open>stop\<close>: it emits only when \<open>exited\<close> is false, and then sets it.\<close>

lemma stop_then_exited: "exited (snd (stop_then w n s))"
  by (simp add: stop_then_def Let_def cleanup_exit_frame emit_exit_def does_def)

lemma stop_then_exit_emissions:
  "exit_emissions (snd (stop_then w n s)) = (if exited s then exit_emissions s else Suc (exit_emissions s))"
  by (simp add: exit_emissions_def stop_then_def Let_def cleanup_exit_frame emit_exit_def does_def)

lemma stop_then_exit_inv: "exit_inv s \<Longrightarrow> exit_inv (snd (stop_then w n s))"
  by (simp add: exit_inv_def stop_then_exited stop_then_exit_emissions)

lemma stop_calls_update_exit [simp]:
  "exit_inv (s\<lparr>stop_calls := cs\<rparr>) = exit_inv s"
  "exit_emissions (s\<lparr>stop_calls := cs\<rparr>) = exit_emissions s"
  by (simp_all add: exit_inv_def exit_emissions_def)

lemma stop_fulfilled_exit:
  "exit_inv s \<Longrightarrow> exit_inv (stop_fulfilled k svc v s)"
  "exited s \<Longrightarrow> exited (stop_fulfilled k svc v s)"
proof -
  let ?c = "set_result svc v (stop_calls s ! k)"
  let ?s1 = "s\<lparr>stop_calls := (stop_calls s)[k := ?c]\<rparr>"
  have shape: "stop_fulfilled k svc v s = ?s1 \<or>
      (\<exists>w n cs. stop_fulfilled k svc v s = (snd (stop_then w n ?s1))\<lparr>stop_calls := cs\<rparr>)"
    by (auto simp: stop_fulfilled_def Let_def case_prod_beta split: option.splits)
  { assume "exit_inv s"
    then have "exit_inv ?s1" by simp
    with shape show "exit_inv (stop_fulfilled k svc v s)"
      by (auto simp: stop_then_exit_inv) }
  { assume "exited s"
    with shape show "exited (stop_fulfilled k svc v s)"
      by (auto simp: stop_then_exited) }
qed

lemma stop_settled_exit:
  "exit_inv s \<Longrightarrow> exit_inv (stop_settled k svc r s)"
  "exited s \<Longrightarrow> exited (stop_settled k svc r s)"
  by (cases r;
      simp add: stop_settled_def stop_rejected_def Let_def promise_catch_def stop_fulfilled_exit
        passthroughErrorLogger_exit_frame exit_frame [of "passthroughErrorLogger err s1" s1 for err s1])+

lemma dispatch_exit:
  "exit_inv s \<Longrightarrow> exit_inv (dispatch i s)"
  "exited s \<Longrightarrow> exited (dispatch i s)"
  by (cases i;
      simp add: stop_settled_exit promise_catch_def ignorePromiseRejection_def
        start_exit_frame stop_exit_frame wallet_command_settled_exit_frame status_changed_exit_frame
        timer_tick_exit_frame socket_connected_exit_frame socket_error_exit_frame
        signal_received_exit_frame signal_stop_settled_exit_frame
        exit_frame [of "start s" s] exit_frame [of "stop False t s" s for t]
        exit_frame [of "snd (wallet_command_settled r s)" s for r]
        exit_frame [of "status_changed svc st s" s for svc st]
        exit_frame [of "timer_tick t ns ws s" s for t ns ws]
        exit_frame [of "socket_connected c api s" s for c api]
        exit_frame [of "socket_error c e s" s for c e]
        exit_frame [of "signal_received sg s" s for sg]
        exit_frame [of "snd (signal_stop_settled r s)" s for r]
        split: sum.splits)+

lemma step_exit:
  "exit_inv s \<Longrightarrow> exit_inv (step s i)"
  "exited s \<Longrightarrow> exited (step s i)"
  unfolding step_def
  by (rule dispatch_exit, simp add: exit_inv_def exit_emissions_def)+

lemma run_exit_inv: "exit_inv s \<Longrightarrow> exit_inv (run s ins)"
  unfolding run_def
  by (induction ins arbitrary: s) (simp_all add: step_exit)

lemma run_exited: "exited s \<Longrightarrow> exited (run s ins)"
  unfolding run_def
  by (induction ins arbitrary: s) (simp_all add: step_exit)

lemma construct_exit_inv: "exit_inv (construct config)"
  by (simp add: exit_inv_def exit_emissions_def construct_def Let_def installSignalHandlers_def
      process_on_exit_frame does_def fresh_def split: option.splits)

text \<open>
  Without a throwing listener the extended callbacks are the plain ones, and so are the
  executions.
\<close>

lemma stop_then_public_Nil:
  "stop_then_public [] w n s = (Inr (fst (stop_then w n s)), snd (stop_then w n s))"
  by (simp add: stop_then_public_def stop_then_def emit_exit_public_def Let_def)

lemma stop_settled_public_Nil: "stop_settled_public [] k svc r s = stop_settled k svc r s"
  by (simp add: stop_settled_public_def stop_settled_def stop_fulfilled_public_def stop_fulfilled_def
      stop_then_public_Nil Let_def case_prod_beta split: sum.splits option.splits)

lemma dispatch_public_plain:
  "exit_throwers ob = [] \<Longrightarrow>
   dispatch_public (Launcher_input i) ob = \<lparr>launcher = step (launcher ob) i, exit_throwers = []\<rparr>"
  by (cases i) (simp_all add: stop_settled_public_Nil step_def)

lemma run_public_plain:
  "exit_throwers ob = [] \<Longrightarrow>
   run_public ob (map Launcher_input ins) = \<lparr>launcher = run (launcher ob) ins, exit_throwers = []\<rparr>"
  unfolding run_public_def run_def
  by (induction ins arbitrary: ob) (simp_all add: dispatch_public_plain)

text \<open>
  As long as the caller subscribes no throwing listener, \<open>exit\<close> is emitted at most once,
  whatever the inputs.
\<close>

lemma exit_at_most_once_without_throwing_listener:
  "exit_emissions (launcher (run_public (construct_public config) (map Launcher_input ins))) \<le> 1"
proof -
  have "exit_inv (run (construct config) ins)"
    by (rule run_exit_inv) (rule construct_exit_inv)
  then have "exit_emissions (run (construct config) ins) \<le> 1"
    by (simp add: exit_inv_def split: if_splits)
  then show ?thesis
    by (simp add: run_public_plain construct_public_def)
qed

text \<open>
  Once \<open>exited\<close> is set it stays set, and \<open>exit\<close> is emitted no more, whatever the inputs and
  the listeners.
\<close>

lemma stop_then_public_exited:
  "exited s \<Longrightarrow>
   exited (snd (stop_then_public throwers w n s)) \<and>
   exit_emissions (snd (stop_then_public throwers w n s)) = exit_emissions s"
  by (simp add: stop_then_public_def Let_def does_def cleanup_exit_frame
      exit_frame [of "call_cleanupSignalHandlers s1" s1 for s1] exit_emissions_def)

lemma stop_settled_public_exited:
  assumes "exited s"
  shows "exited (stop_settled_public throwers k svc r s) \<and>
         exit_emissions (stop_settled_public throwers k svc r s) = exit_emissions s"
proof (cases r)
  case (Inl err)
  then show ?thesis
    using assms
    by (simp add: stop_settled_public_def stop_rejected_def Let_def promise_catch_def
        passthroughErrorLogger_exit_frame exit_frame [of "passthroughErrorLogger e s1" s1 for e s1])
next
  case (Inr v)
  let ?c = "set_result svc v (stop_calls s ! k)"
  let ?s1 = "s\<lparr>stop_calls := (stop_calls s)[k := ?c]\<rparr>"
  have s1: "exited ?s1" "exit_emissions ?s1 = exit_emissions s"
    using assms by simp_all
  have "exited (stop_fulfilled_public throwers k svc v s) \<and>
        exit_emissions (stop_fulfilled_public throwers k svc v s) = exit_emissions s"
  proof (cases "wallet_result ?c")
    case None
    then show ?thesis using s1 by (simp add: stop_fulfilled_public_def Let_def)
  next
    case (Some w)
    note w = this
    show ?thesis
    proof (cases "node_result ?c")
      case None
      then show ?thesis using s1 w by (simp add: stop_fulfilled_public_def Let_def)
    next
      case (Some n)
      have fin: "fst (stop_then_public throwers w n ?s1) = Inr (mk_status w n)"
        using s1(1) by (simp add: stop_then_public_def Let_def does_def)
      show ?thesis
        using w Some fin stop_then_public_exited [OF s1(1), of throwers w n] s1(2)
        by (simp add: stop_fulfilled_public_def Let_def case_prod_beta)
    qed
  qed
  then show ?thesis using Inr assms by (simp add: stop_settled_public_def)
qed

lemma dispatch_exited:
  "exited s \<Longrightarrow> exited (dispatch i s) \<and> exit_emissions (dispatch i s) = exit_emissions s"
  using stop_settled_public_exited [of s "[]"]
  by (cases i;
      simp add: stop_settled_public_Nil promise_catch_def ignorePromiseRejection_def
        start_exit_frame stop_exit_frame wallet_command_settled_exit_frame status_changed_exit_frame
        timer_tick_exit_frame socket_connected_exit_frame socket_error_exit_frame
        signal_received_exit_frame signal_stop_settled_exit_frame
        exit_frame [of "start s" s] exit_frame [of "stop False t s" s for t]
        exit_frame [of "snd (wallet_command_settled r s)" s for r]
        exit_frame [of "status_changed svc st s" s for svc st]
        exit_frame [of "timer_tick t ns ws s" s for t ns ws]
        exit_frame [of "socket_connected c api s" s for c api]
        exit_frame [of "socket_error c e s" s for c e]
        exit_frame [of "signal_received sg s" s for sg]
        exit_frame [of "snd (signal_stop_settled r s)" s for r]
        split: sum.splits)

lemma dispatch_public_exited:
  assumes "exited (launcher ob)"
  shows "exited (launcher (dispatch_public i ob)) \<and>
         exit_emissions (launcher (dispatch_public i ob)) = exit_emissions (launcher ob)"
proof (cases i)
  case (Subscribe_exit_thrower err)
  then show ?thesis using assms by simp
next
  case (Launcher_input j)
  let ?s = "(launcher ob)\<lparr>history := history (launcher ob) @ [In j]\<rparr>"
  have s: "exited ?s" "exit_emissions ?s = exit_emissions (launcher ob)"
    using assms by (simp_all add: exit_emissions_def)
  show ?thesis
  proof (cases "\<exists>k svc r. j = StopSettled k svc r")
    case True
    then obtain k svc r where j: "j = StopSettled k svc r" by blast
    show ?thesis
      using stop_settled_public_exited [OF s(1), of "exit_throwers ob" k svc r] s(2)
      by (simp add: Launcher_input j)
  next
    case False
    then have "dispatch_public (Launcher_input j) ob = ob\<lparr>launcher := step (launcher ob) j\<rparr>"
      by (cases j) simp_all
    then show ?thesis
      using dispatch_exited [OF s(1), of j] s(2)
      by (simp add: Launcher_input step_def)
  qed
qed

lemma exited_stays_and_stops_emissions:
  "exited (launcher ob) \<Longrightarrow>
   exited (launcher (run_public ob ins)) \<and>
   exit_emissions (launcher (run_public ob ins)) = exit_emissions (launcher ob)"
  unfolding run_public_def
proof (induction ins arbitrary: ob)
  case Nil
  then show ?case by simp
next
  case (Cons i ins)
  from dispatch_public_exited [OF Cons.prems, of i] Cons.IH [of "dispatch_public i ob"]
  show ?case by simp
qed

text \<open>
  Claim C1 at a concrete execution. The caller has subscribed a listener of \<open>exit\<close> that
  throws. The node exits by itself; the callback of the resulting \<open>stop\<close> emits \<open>exit\<close> (line
  300), the listener throws, and the assignment of line 301 is not reached. The callback
  of the later \<open>stop(5)\<close> finds \<open>exited\<close> false and emits \<open>exit\<close> a second time. Both promises
  of \<open>stop\<close> are rejected with the listener's exception.
\<close>

theorem exit_emitted_twice_when_listener_throws:
  "exit_emissions (launcher (run_public (construct_public config0) throwing_listener_inputs)) = 2 \<and>
   \<not> exited (launcher (run_public (construct_public config0) throwing_listener_inputs)) \<and>
   map outcome (stop_calls (launcher (run_public (construct_public config0) throwing_listener_inputs))) =
     [Some (Inl ''listener failed''), Some (Inl ''listener failed'')]"
  by (simp add: config0_def throwing_listener_inputs_def exit_emissions_def public_defs launcher_defs)

section \<open>Start order\<close>

lemma start_history:
  "history (start s) = history s @ map Out
     [ServiceStart Node, ServiceStart Wallet, LoggerDebug ''waitForApi'', SetInterval (length (pollers s)),
      On_ready (length (start_promises s)), On_exit (length (start_promises s))]"
  by (simp add: start_def Let_def new_promise_def waitForApi_def on_ready_def on_exit_def does_def)

text \<open>
  Claim C2, as stated, fails: \<open>start\<close> calls \<open>walletService.start()\<close> right after
  \<open>nodeService.start()\<close>, in the same block, and does not wait for the promise that the
  node's start returned. In the execution that consists of the call of \<open>start\<close> alone the
  wallet's start is invoked, and no settlement of the node's start precedes it.
\<close>

theorem wallet_start_not_chained_counterexample:
  "list_ex is_wallet_start (history (run (construct config0) start_only)) \<and>
   \<not> node_start_settled_first (history (run (construct config0) start_only))"
  by (simp add: config0_def start_only_def node_start_settled_first_def launcher_defs)

text \<open>
  Claim C2, amended. What is chained is the construction of the start commands in
  \<open>makeServiceCommands\<close>: \<open>mkdirp\<close> is called first, \<open>nodeExe\<close> only once \<open>mkdirp\<close> is fulfilled,
  and \<open>walletExe\<close> only once the node's command promise is fulfilled (never when it is
  rejected); the node's command promise is the outcome of that chain. \<open>start\<close> itself invokes
  the node service's start and, with nothing in between, the wallet service's start.
\<close>

theorem wallet_command_chained_on_node_command:
  "snd (makeServiceCommands env config) =
     [Command_info (creating_message config), Call_mkdirp (stateDir config)] @
     (case mkdirp env (stateDir config) of
        Inl err \<Rightarrow> []
      | Inr u \<Rightarrow> Call_nodeExe (stateDir config) #
          (case startCardanoNode env (stateDir config) (nodeConfig config) (networkName config) of
             Inl err \<Rightarrow> []
           | Inr n \<Rightarrow> [Call_walletExe (stateDir config)])) \<and>
   node (fst (makeServiceCommands env config)) =
     (case mkdirp env (stateDir config) of
        Inl err \<Rightarrow> Inl err
      | Inr u \<Rightarrow> startCardanoNode env (stateDir config) (nodeConfig config) (networkName config)) \<and>
   takeWhile (\<lambda>e. \<not> is_wallet_start e) (drop (length (history s)) (history (start s))) = [Out (ServiceStart Node)]"
  by (simp add: makeServiceCommands_def promise_then_def nodeExe_def walletExe_def start_history
      split: sum.splits node_kind.splits)

section \<open>The promise of start and the two events\<close>

lemma settle_listeners_length [simp]: "length (settle_listeners ids new ps) = length ps"
  unfolding settle_listeners_def
  by (induction ids arbitrary: ps) simp_all




lemma same_promises_refl [simp]: "same_promises s s"
  by (simp add: same_promises_def)

lemma same_promises_trans: "same_promises s'' s' \<Longrightarrow> same_promises s' s \<Longrightarrow> same_promises s'' s"
  by (simp add: same_promises_def)
















lemma tracks_stop_calls_update [simp]: "tracks p c0 (s\<lparr>stop_calls := cs\<rparr>) = tracks p c0 s"
  by (simp add: tracks_def emissions_def)









section \<open>stop\<close>

lemma stop_then_public_completes:
  "throwers = [] \<or> exited s \<Longrightarrow>
   fst (stop_then_public throwers w n s) = Inr [(''wallet'', w), (''node'', n)] \<and>
   stop_calls (snd (stop_then_public throwers w n s)) = stop_calls s"
  by (auto simp: stop_then_public_def emit_exit_public_def mk_status_def Let_def does_def emit_exit_def
      call_cleanupSignalHandlers_def signals_def process_off_def split: cleanup_fn.splits)

lemma first_stop_result:
  "k < length (stop_calls s) \<Longrightarrow> stop_calls s ! k = stop_call_init c \<Longrightarrow>
   stop_settled_public throwers k svc (Inr v) s =
     s\<lparr>stop_calls := (stop_calls s)[k := set_result svc v (stop_call_init c)]\<rparr>"
  by (cases svc)
     (simp_all add: stop_settled_public_def stop_fulfilled_public_def Let_def stop_call_init_def
        set_result_def get_result_def)

lemma second_stop_result:
  assumes "throwers = [] \<or> exited s" and "k < length (stop_calls s)"
    and "stop_calls s ! k = c" and "outcome c = None" and "get_result svc c = None"
    and "wallet_result (set_result svc v c) = Some w" and "node_result (set_result svc v c) = Some n"
  shows "stop_calls (stop_settled_public throwers k svc (Inr v) s) =
     (stop_calls s)[k := (set_result svc v c)\<lparr>outcome := Some (Inr [(''wallet'', w), (''node'', n)])\<rparr>]"
proof -
  let ?s1 = "s\<lparr>stop_calls := (stop_calls s)[k := set_result svc v c]\<rparr>"
  have ok: "throwers = [] \<or> exited ?s1" using assms(1) by simp
  note completes = stop_then_public_completes [OF ok, of w n]
  show ?thesis
    using assms(2-7) completes
    by (simp add: stop_settled_public_def stop_fulfilled_public_def Let_def case_prod_beta)
qed

text \<open>
  Claim C4, as stated, fails: the promise of the call whose callback emits \<open>exit\<close> is
  rejected when a listener of the caller throws. Here the caller has subscribed such a
  listener and calls \<open>stop(5)\<close>; both stop promises are fulfilled, and the promise that
  \<open>stop\<close> returned is rejected with the listener's exception instead of being fulfilled
  with the status.
\<close>

theorem stop_rejects_when_listener_throws_counterexample:
  "map outcome (stop_calls (launcher (run_public (construct_public config0) stop_with_throwing_listener_inputs))) =
     [Some (Inl ''listener failed'')]"
  by (simp add: config0_def stop_with_throwing_listener_inputs_def public_defs launcher_defs)


text \<open>
  Claim C4, amended. \<open>stop\<close> passes its timeout (60 when the argument is missing) to the
  stop of the wallet service and to the stop of the node service, one call after the
  other with no waiting in between, and its promise is pending. For any call \<open>k\<close> in flight,
  among any number of others: its promise stays pending while only one of its two stop
  promises is fulfilled, and once both are, in either order, it is fulfilled with the
  object whose property \<open>wallet\<close> is the wallet's result and whose property \<open>node\<close> is the
  node's result; the other calls are untouched. This holds when \<open>exited\<close> is already set
  (the callback does not emit) and when no listener throws (the callback emits or not).
\<close>

theorem stop_returns_combined_status:
  "history (stop c timeoutArg s) = history s @ map Out
     [LoggerDebug ''Launcher.stop: stopping wallet and node'',
      ServiceStop Wallet (case timeoutArg of None \<Rightarrow> 60 | Some t \<Rightarrow> t),
      ServiceStop Node (case timeoutArg of None \<Rightarrow> 60 | Some t \<Rightarrow> t)] \<and>
   stop_calls (stop c timeoutArg s) = stop_calls s @ [stop_call_init c] \<and>
   (k < length (stop_calls s) \<and> stop_calls s ! k = stop_call_init c \<and> (throwers = [] \<or> exited s) \<longrightarrow>
      stop_calls (stop_settled_public throwers k Wallet (Inr w) s) =
        (stop_calls s)[k := \<lparr>wallet_result = Some w, node_result = None, outcome = None, caught = c\<rparr>] \<and>
      stop_calls (stop_settled_public throwers k Node (Inr n) s) =
        (stop_calls s)[k := \<lparr>wallet_result = None, node_result = Some n, outcome = None, caught = c\<rparr>] \<and>
      stop_calls (stop_settled_public throwers k Node (Inr n) (stop_settled_public throwers k Wallet (Inr w) s)) =
        (stop_calls s)[k := \<lparr>wallet_result = Some w, node_result = Some n,
                               outcome = Some (Inr [(''wallet'', w), (''node'', n)]), caught = c\<rparr>] \<and>
      stop_calls (stop_settled_public throwers k Wallet (Inr w) (stop_settled_public throwers k Node (Inr n) s)) =
        (stop_calls s)[k := \<lparr>wallet_result = Some w, node_result = Some n,
                               outcome = Some (Inr [(''wallet'', w), (''node'', n)]), caught = c\<rparr>])"
proof -
  have call: "history (stop c timeoutArg s) = history s @ map Out
     [LoggerDebug ''Launcher.stop: stopping wallet and node'',
      ServiceStop Wallet (case timeoutArg of None \<Rightarrow> 60 | Some t \<Rightarrow> t),
      ServiceStop Node (case timeoutArg of None \<Rightarrow> 60 | Some t \<Rightarrow> t)] \<and>
   stop_calls (stop c timeoutArg s) = stop_calls s @ [stop_call_init c]"
    by (simp add: stop_def Let_def does_def)
  { assume k: "k < length (stop_calls s)" and init: "stop_calls s ! k = stop_call_init c"
      and ok: "throwers = [] \<or> exited s"
    let ?sw = "stop_settled_public throwers k Wallet (Inr w) s"
    let ?sn = "stop_settled_public throwers k Node (Inr n) s"
    have sw: "?sw = s\<lparr>stop_calls := (stop_calls s)[k := set_result Wallet w (stop_call_init c)]\<rparr>"
      by (rule first_stop_result [OF k init])
    have sn: "?sn = s\<lparr>stop_calls := (stop_calls s)[k := set_result Node n (stop_call_init c)]\<rparr>"
      by (rule first_stop_result [OF k init])
    have wn: "stop_calls (stop_settled_public throwers k Node (Inr n) ?sw) =
        (stop_calls ?sw)[k := (set_result Node n (set_result Wallet w (stop_call_init c)))
                               \<lparr>outcome := Some (Inr [(''wallet'', w), (''node'', n)])\<rparr>]"
      by (rule second_stop_result)
         (use k ok in \<open>simp_all add: sw set_result_def get_result_def stop_call_init_def\<close>)
    have nw: "stop_calls (stop_settled_public throwers k Wallet (Inr w) ?sn) =
        (stop_calls ?sn)[k := (set_result Wallet w (set_result Node n (stop_call_init c)))
                               \<lparr>outcome := Some (Inr [(''wallet'', w), (''node'', n)])\<rparr>]"
      by (rule second_stop_result)
         (use k ok in \<open>simp_all add: sn set_result_def get_result_def stop_call_init_def\<close>)
    have "stop_calls ?sw = (stop_calls s)[k := \<lparr>wallet_result = Some w, node_result = None, outcome = None, caught = c\<rparr>]"
      and "stop_calls ?sn = (stop_calls s)[k := \<lparr>wallet_result = None, node_result = Some n, outcome = None, caught = c\<rparr>]"
      and "stop_calls (stop_settled_public throwers k Node (Inr n) ?sw) =
        (stop_calls s)[k := \<lparr>wallet_result = Some w, node_result = Some n,
                               outcome = Some (Inr [(''wallet'', w), (''node'', n)]), caught = c\<rparr>]"
      and "stop_calls (stop_settled_public throwers k Wallet (Inr w) ?sn) =
        (stop_calls s)[k := \<lparr>wallet_result = Some w, node_result = Some n,
                               outcome = Some (Inr [(''wallet'', w), (''node'', n)]), caught = c\<rparr>]"
      unfolding wn nw
      by (simp_all add: sw sn set_result_def stop_call_init_def) }
  with call show ?thesis by blast
qed

text \<open>
  Two calls are in flight and \<open>exit\<close> has not been emitted. The results of the first call
  arrive, the node's first: the first call is fulfilled with its status and the second
  call is still pending.
\<close>

theorem stop_returns_combined_status_witness:
  "0 < length (stop_calls two_stops) \<and> stop_calls two_stops ! 0 = stop_call_init False \<and>
   stop_calls (stop_settled_public [] 0 Wallet (Inr ''wallet: status 0'')
                 (stop_settled_public [] 0 Node (Inr ''node: status 0'') two_stops)) =
     [\<lparr>wallet_result = Some ''wallet: status 0'', node_result = Some ''node: status 0'',
       outcome = Some (Inr [(''wallet'', ''wallet: status 0''), (''node'', ''node: status 0'')]),
       caught = False\<rparr>,
      stop_call_init True]"
proof -
  have k: "0 < length (stop_calls two_stops)"
    and init: "stop_calls two_stops ! 0 = stop_call_init False"
    and calls: "stop_calls two_stops = [stop_call_init False, stop_call_init True]"
    by (simp_all add: two_stops_def two_stops_inputs_def config0_def launcher_defs)
  show ?thesis
    using stop_returns_combined_status [of False None two_stops 0 "[]" "''wallet: status 0''" "''node: status 0''"]
      k init
    by (simp add: calls)
qed

section \<open>A failed start of the node\<close>






section \<open>The readiness poller\<close>

lemma stopWaiting_iff:
  "stopWaiting nodeStatus walletStatus =
     (nodeStatus = Stopping \<or> nodeStatus = Stopped \<or> walletStatus = Stopping \<or> walletStatus = Stopped)"
  by (cases nodeStatus; cases walletStatus; simp add: stopWaiting_def)

lemma stop_tick_clears_timer:
  "t < length (pollers s) \<Longrightarrow> timer_active (pollers s ! t) \<Longrightarrow> stopWaiting nodeStatus walletStatus \<Longrightarrow>
   timer_tick t nodeStatus walletStatus s = clearInterval t s \<and>
   \<not> timer_active (pollers (clearInterval t s) ! t) \<and>
   sockets (clearInterval t s) = sockets s"
  by (simp add: timer_tick_def clearInterval_def does_def)

text \<open>
  Claim C5 at a concrete execution. The stop predicate is true in the second tick (the
  node is stopping), no connection attempt has succeeded by then, and the tick clears
  the timer. The socket that the first tick made is not destroyed (only the other branch
  of the tick destroys \<open>client\<close>), so when its connection is established afterwards the
  callback of lines 266-270 runs: \<open>ready\<close> is called, the event is emitted and the promise
  of \<open>start\<close> is fulfilled.
\<close>

theorem ready_after_stop_tick:
  "stopWaiting Stopping Started \<and>
   drop 14 (history (run (construct config0) late_connect_inputs)) =
     [In (TimerTick 0 Started Started), Out (LoggerInfoWaiting ''127.0.0.1'' 8090), Out (SocketConnect 0 8090),
      In (TimerTick 0 Stopping Started), Out (ClearInterval 0),
      In (SocketConnected 0 8090), Out (LoggerInfo ''... port is ready.''), Out (ClearInterval 0),
      Out (Emit_ready 8090)] \<and>
   start_promises (run (construct config0) late_connect_inputs) = [Fulfilled 8090]"
  by (simp add: config0_def late_connect_inputs_def launcher_defs)

section \<open>Exit status message\<close>

text \<open>
  Claim C7, as stated, fails: the line of the wallet comes first, since \<open>stop\<close> builds the
  status as \<open>{ wallet, node }\<close> and \<open>_.map\<close> follows the order of the properties.
  Here \<open>serviceExitStatusMessage\<close> is taken to be the identity on lines.
\<close>

theorem node_line_first_counterexample:
  "exitStatusMessage id (mk_status ''cardano-wallet exited with status 0'' ''cardano-node exited with status 1'')
   \<noteq> ''cardano-node exited with status 1'' @ [CHR 0x0A] @ ''cardano-wallet exited with status 0''"
  by (simp add: exitStatusMessage_def mk_status_def)

text \<open>
  Claim C7, amended. \<open>exitStatusMessage\<close> is a total function of the status: one line per
  property, rendered by \<open>serviceExitStatusMessage\<close>, in the order of the object's
  properties, with a newline between the lines. For the status that the callback of
  \<open>stop\<close> builds the wallet's line comes before the node's line.
\<close>

theorem exitStatusMessage_wallet_then_node:
  "exitStatusMessage msg (fst (stop_then w n s)) = msg w @ [CHR 0x0A] @ msg n \<and>
   exitStatusMessage msg (mk_status w n) = msg w @ [CHR 0x0A] @ msg n \<and>
   exitStatusMessage msg [(k1, v1), (k2, v2)] = msg v1 @ [CHR 0x0A] @ msg v2 \<and>
   exitStatusMessage msg status = join [CHR 0x0A] (map (\<lambda>kv. msg (snd kv)) status)"
  by (simp add: exitStatusMessage_def mk_status_def stop_then_def Let_def case_prod_unfold)

section \<open>Signal handlers\<close>

lemma installSignalHandlers_effect:
  "installSignalHandlers s =
     s\<lparr>history := history s @ map Out [ProcessOn ''SIGINT'', ProcessOn ''SIGTERM'', ProcessOn ''SIGHUP'', ProcessOn ''SIGBREAK''],
       process_listeners := process_listeners s @ [''SIGINT'', ''SIGTERM'', ''SIGHUP'', ''SIGBREAK''],
       cleanupSignalHandlers := RemoveHandlers\<rparr>"
  by (simp add: installSignalHandlers_def signals_def process_on_def does_def)

lemma construct_process_listeners:
  "process_listeners (construct config) = (if cfg_installSignalHandlers config = Some False then [] else signals)"
  by (simp add: construct_def Let_def installSignalHandlers_effect does_def fresh_def signals_def
      split: option.splits)

lemma construct_cleanup:
  "cleanupSignalHandlers (construct config) = (if cfg_installSignalHandlers config = Some False then Noop else RemoveHandlers)"
  by (simp add: construct_def Let_def installSignalHandlers_effect does_def fresh_def
      split: option.splits)

text \<open>
  Claim C8. \<open>installSignalHandlers\<close> registers the handler for SIGINT, SIGTERM, SIGHUP and
  SIGBREAK and for nothing else, so a constructed Launcher reacts to a signal exactly
  if it is one of the four (and the handlers were installed). The handler logs the signal
  and calls stop with timeout 0 on the wallet service and on the node service. Each of
  the two promises has \<open>passthroughErrorLogger\<close> attached: a rejection is written to the
  console, and the resulting promise is fulfilled, never rejected.
\<close>

theorem signal_handlers_stop_both_services:
  "process_listeners (installSignalHandlers s) = process_listeners s @ [''SIGINT'', ''SIGTERM'', ''SIGHUP'', ''SIGBREAK''] \<and>
   history (installSignalHandlers s) =
     history s @ map Out [ProcessOn ''SIGINT'', ProcessOn ''SIGTERM'', ProcessOn ''SIGHUP'', ProcessOn ''SIGBREAK''] \<and>
   signal_received signal (construct config) =
     (if signal \<in> {''SIGINT'', ''SIGTERM'', ''SIGHUP'', ''SIGBREAK''} \<and> cfg_installSignalHandlers config \<noteq> Some False
      then handler signal (construct config) else construct config) \<and>
   history (handler signal s) =
     history s @ map Out [LoggerInfo (''Received '' @ signal @ '' - stopping services...''),
                          ServiceStop Wallet 0, ServiceStop Node 0] \<and>
   signal_stop_settled (Inl err) s = (Inr None, passthroughErrorLogger err s) \<and>
   signal_stop_settled (Inr v) s = (Inr (Some v), s) \<and>
   history (passthroughErrorLogger err s) =
     history s @ map Out [ConsoleDebug ''Caught an unhandled promise rejection.'', ConsoleDebug err]"
  by (simp add: installSignalHandlers_effect signal_received_def construct_process_listeners signals_def
      handler_def does_def signal_stop_settled_def promise_catch_def passthroughErrorLogger_def)

lemma cleanup_Noop: "cleanupSignalHandlers s = Noop \<Longrightarrow> call_cleanupSignalHandlers s = s"
  by (simp add: call_cleanupSignalHandlers_def)

lemma cleanup_sets_Noop: "cleanupSignalHandlers (call_cleanupSignalHandlers s) = Noop"
  by (simp add: call_cleanupSignalHandlers_def signals_def process_off_def does_def split: cleanup_fn.splits)

lemma cleanup_after_install:
  "call_cleanupSignalHandlers (installSignalHandlers s) =
     (installSignalHandlers s)
       \<lparr>history := history (installSignalHandlers s) @
            map Out [ProcessOff ''SIGINT'', ProcessOff ''SIGTERM'', ProcessOff ''SIGHUP'', ProcessOff ''SIGBREAK''],
        process_listeners := fold remove1 signals (process_listeners s @ signals),
        cleanupSignalHandlers := Noop\<rparr>"
  by (simp add: installSignalHandlers_effect call_cleanupSignalHandlers_def signals_def process_off_def does_def)

lemma stop_then_second:
  "snd (stop_then w' n' (snd (stop_then w n s))) =
     (snd (stop_then w n s))
       \<lparr>history := history (snd (stop_then w n s)) @
           [Out (LoggerDebugStatus ''Launcher.stop: both services are stopped.'' (mk_status w' n'))]\<rparr>"
  by (simp add: stop_then_def Let_def does_def cleanup_Noop cleanup_sets_Noop cleanup_exit_frame emit_exit_def)

text \<open>
  Claim C9. Calling the cleanup twice is the same as calling it once. The first call
  after the installation removes the handler from the four signals, so that a
  constructed Launcher has no handler left after it. A second completion of \<open>stop\<close> only
  logs: it calls \<open>process.off\<close> no more (and emits nothing), and leaves the listeners of the
  process as they are.
\<close>

theorem cleanup_idempotent:
  "call_cleanupSignalHandlers (call_cleanupSignalHandlers s) = call_cleanupSignalHandlers s \<and>
   history (call_cleanupSignalHandlers (installSignalHandlers s)) =
     history (installSignalHandlers s) @
       map Out [ProcessOff ''SIGINT'', ProcessOff ''SIGTERM'', ProcessOff ''SIGHUP'', ProcessOff ''SIGBREAK''] \<and>
   process_listeners (call_cleanupSignalHandlers (construct config)) = [] \<and>
   history (snd (stop_then w' n' (snd (stop_then w n s)))) =
     history (snd (stop_then w n s)) @
       [Out (LoggerDebugStatus ''Launcher.stop: both services are stopped.'' (mk_status w' n'))] \<and>
   process_listeners (snd (stop_then w' n' (snd (stop_then w n s)))) = process_listeners (snd (stop_then w n s))"
proof -
  have "process_listeners (call_cleanupSignalHandlers (construct config)) = []"
    by (simp add: call_cleanupSignalHandlers_def construct_cleanup construct_process_listeners
        signals_def process_off_def does_def)
  then show ?thesis
    by (simp add: cleanup_Noop cleanup_sets_Noop cleanup_after_install stop_then_second)
qed

text \<open>
  Claim C10. A configuration without the field \<open>installSignalHandlers\<close> makes the
  constructor install the handlers for the four signals; a constructed Launcher has no
  handlers exactly if the field is \<open>false\<close>.
\<close>

theorem installSignalHandlers_defaults_to_true:
  "process_listeners (construct (config\<lparr>cfg_installSignalHandlers := None\<rparr>)) = [''SIGINT'', ''SIGTERM'', ''SIGHUP'', ''SIGBREAK''] \<and>
   cleanupSignalHandlers (construct (config\<lparr>cfg_installSignalHandlers := None\<rparr>)) = RemoveHandlers \<and>
   (process_listeners (construct config) = []) = (cfg_installSignalHandlers config = Some False)"
  by (simp add: construct_process_listeners construct_cleanup signals_def)

end
